theory Spec2Isabelle
  imports Main
begin

section \<open>The MQTT weather-station client (client.py)\<close>

text \<open>
  The embedding follows \<^verbatim>\<open>client.py\<close>. Python exceptions are values of the type
  \<open>error\<close>; a function that mutates the \<^verbatim>\<open>UserData\<close> object, the log file or
  the transport takes the state and returns it together with its outcome, so the state
  reached when an exception leaves a function is visible. Console output
  (\<^verbatim>\<open>print\<close>) is not modelled, and writing to the log does not fail.
\<close>

subsection \<open>Outcomes\<close>

datatype error =
    AttributeError
  | NameError
  | KeyError
  | IndexError
  | ValueError
  | TypeError
  | UnicodeError  \<comment> \<open>\<^verbatim>\<open>UnicodeDecodeError\<close> or \<^verbatim>\<open>UnicodeEncodeError\<close>\<close>
  | Blocked  \<comment> \<open>not an exception: \<^verbatim>\<open>acquire\<close> on a held, non-reentrant lock never returns\<close>

type_synonym 'a result = "error + 'a"

subsection \<open>State\<close>

text \<open>
  The value of \<^verbatim>\<open>max_plot\<close>: an integer, or the text given on the command line.
\<close>

datatype pyval = IntVal int | StrVal string

text \<open>
  What the program does to the outside, in the order it does it: every effect is
  recorded in the trace together with the status of \<^verbatim>\<open>UserData.lock\<close> at that
  moment.
\<close>

datatype effect =
    Append string string      \<comment> \<open>\<^verbatim>\<open>readings[topic] += [data]\<close>\<close>
  | PlotCall string string    \<comment> \<open>\<^verbatim>\<open>self.plot_reading(topic, data)\<close> entered\<close>
  | FileWrite "string list"   \<comment> \<open>one \<^verbatim>\<open>f.writelines(...)\<close> on the log\<close>
  | Subscribe string          \<comment> \<open>\<^verbatim>\<open>client.subscribe(topic)\<close>\<close>
  | Connect                   \<comment> \<open>\<^verbatim>\<open>client.connect(url, port)\<close>\<close>

text \<open>
  The attributes of \<^verbatim>\<open>UserData\<close> as \<^verbatim>\<open>__init__\<close> creates them
  (\<open>u_connected\<close> is \<^verbatim>\<open>_connected\<close>, \<open>u_last_connected\<close> is
  \<^verbatim>\<open>_last_connected\<close>, \<open>locked\<close> is the status of \<^verbatim>\<open>lock\<close>), then the
  content of the file named \<^verbatim>\<open>filename\<close> (\<open>None\<close> when it does not exist) and
  the trace. The type \<open>'f\<close> is that of Python's floats.
\<close>

record 'f state =
  filename :: string
  topics :: "string list"
  verbose :: bool
  plot :: bool
  locked :: bool
  readings :: "string \<rightharpoonup> string list"
  plots :: "(string \<times> (string list \<times> 'f list)) list option"
  max_plot :: pyval
  default_plot :: "string \<rightharpoonup> (string list \<times> 'f list)"
  u_connected :: bool
  u_last_connected :: bool
  logfile :: "string option"
  trace :: "(bool \<times> effect) list"

definition emit :: "effect \<Rightarrow> 'f state \<Rightarrow> 'f state" where
  "emit e s = s\<lparr>trace := trace s @ [(locked s, e)]\<rparr>"

definition bind_r ::
  "('s \<Rightarrow> 'a result \<times> 's) \<Rightarrow> ('a \<Rightarrow> 's \<Rightarrow> 'b result \<times> 's) \<Rightarrow> 's \<Rightarrow> 'b result \<times> 's" where
  "bind_r m f s = (case m s of (Inl e, s') \<Rightarrow> (Inl e, s') | (Inr x, s') \<Rightarrow> f x s')"

definition return_r :: "'a \<Rightarrow> 's \<Rightarrow> 'a result \<times> 's" where
  "return_r x s = (Inr x, s)"

text \<open>
  \<^verbatim>\<open>with self.lock:\<close> acquires the lock, runs the body and releases the lock
  however the body ends. \<^verbatim>\<open>threading.Lock\<close> is not reentrant.
\<close>

definition with_lock :: "('f state \<Rightarrow> 'a result \<times> 'f state) \<Rightarrow> 'f state \<Rightarrow> 'a result \<times> 'f state" where
  "with_lock body s =
     (if locked s then (Inl Blocked, s)
      else (case body (s\<lparr>locked := True\<rparr>) of (r, s') \<Rightarrow> (r, s'\<lparr>locked := False\<rparr>)))"

subsection \<open>The properties \<^verbatim>\<open>connected\<close> and \<^verbatim>\<open>last_connected\<close>\<close>

text \<open>
  The four functions of lines 50 to 68, in source order. Three of them are named
  \<^verbatim>\<open>connected\<close> in the source; the one of line 66 is \<open>connected_66\<close> here.
\<close>

definition connected_getter :: "'f state \<Rightarrow> bool result \<times> 'f state" where
  "connected_getter = with_lock (\<lambda>s. (Inr (u_connected s), s))"

definition connected_setter :: "bool \<Rightarrow> 'f state \<Rightarrow> unit result \<times> 'f state" where
  "connected_setter value = with_lock (\<lambda>s. (Inr (), s\<lparr>u_connected := value\<rparr>))"

definition last_connected_getter :: "'f state \<Rightarrow> bool result \<times> 'f state" where
  "last_connected_getter = with_lock (\<lambda>s. (Inr (u_last_connected s), s))"

definition connected_66 :: "bool \<Rightarrow> 'f state \<Rightarrow> unit result \<times> 'f state" where
  "connected_66 value = with_lock (\<lambda>s. (Inr (), s\<lparr>u_last_connected := value\<rparr>))"

text \<open>
  A Python \<^verbatim>\<open>property\<close> object: \<^verbatim>\<open>property(f)\<close> has the getter \<open>f\<close> and no
  setter; \<^verbatim>\<open>p.setter(f)\<close> is a copy of \<open>p\<close> whose setter is \<open>f\<close>.
\<close>

record 'f property =
  fget :: "('f state \<Rightarrow> bool result \<times> 'f state) option"
  fset :: "(bool \<Rightarrow> 'f state \<Rightarrow> unit result \<times> 'f state) option"

definition property_of :: "('f state \<Rightarrow> bool result \<times> 'f state) \<Rightarrow> 'f property" where
  "property_of f = \<lparr>fget = Some f, fset = None\<rparr>"

definition setter :: "'f property \<Rightarrow> (bool \<Rightarrow> 'f state \<Rightarrow> unit result \<times> 'f state) \<Rightarrow> 'f property" where
  "setter p f = p\<lparr>fset := Some f\<rparr>"

datatype attr = A_connected | A_last_connected

text \<open>
  The class body binds the names in this order: each decorated \<^verbatim>\<open>def\<close> rebinds
  the name of the function it decorates to the value of the decorator.
\<close>

definition UserData_class :: "attr \<Rightarrow> 'f property" where
  "UserData_class =
     (let connected = (property_of connected_getter :: 'f property);
          connected = setter connected connected_setter;
          last_connected = property_of last_connected_getter;
          connected = setter last_connected connected_66
      in (\<lambda>a. case a of A_connected \<Rightarrow> connected | A_last_connected \<Rightarrow> last_connected))"

text \<open>
  Reading and assigning an attribute that the class defines as a property: an
  assignment through a property without a setter raises \<^verbatim>\<open>AttributeError\<close>.
\<close>

definition getattr_p :: "attr \<Rightarrow> 'f state \<Rightarrow> bool result \<times> 'f state" where
  "getattr_p a s = (case fget (UserData_class a) of None \<Rightarrow> (Inl AttributeError, s) | Some g \<Rightarrow> g s)"

definition setattr_p :: "attr \<Rightarrow> bool \<Rightarrow> 'f state \<Rightarrow> unit result \<times> 'f state" where
  "setattr_p a v s = (case fset (UserData_class a) of None \<Rightarrow> (Inl AttributeError, s) | Some f \<Rightarrow> f v s)"

subsection \<open>The connection callbacks\<close>

fun subscribe_all :: "string list \<Rightarrow> 'f state \<Rightarrow> 'f state" where
  "subscribe_all [] s = s"
| "subscribe_all (topic # ts) s = subscribe_all ts (emit (Subscribe topic) s)"

definition on_disconnect :: "int \<Rightarrow> 'f state \<Rightarrow> unit result \<times> 'f state" where
  "on_disconnect rc = setattr_p A_connected False"

definition on_connect :: "int \<Rightarrow> 'f state \<Rightarrow> unit result \<times> 'f state" where
  "on_connect rc s =
     (if rc = 0 then
        bind_r (setattr_p A_connected True) (\<lambda>_. setattr_p A_last_connected True)
          (subscribe_all (topics s) s)
      else (Inr (), s))"

subsection \<open>Recording a reading\<close>

text \<open>
  \<^verbatim>\<open>plot_reading\<close> (lines 110 to 126). \<^verbatim>\<open>not self.plots\<close> holds for
  \<^verbatim>\<open>None\<close> and for an empty dictionary; line 115 then evaluates
  \<^verbatim>\<open>self.stations\<close>, an attribute that \<^verbatim>\<open>UserData\<close> never defines. With a
  non-empty \<^verbatim>\<open>plots\<close>, line 117 evaluates the name \<^verbatim>\<open>station\<close>, which is
  bound nowhere. Neither way reaches an assignment.
\<close>

definition falsy :: "'a list option \<Rightarrow> bool" where
  "falsy d = (case d of None \<Rightarrow> True | Some kvs \<Rightarrow> kvs = [])"

definition plot_reading :: "string \<Rightarrow> string \<Rightarrow> 'f state \<Rightarrow> unit result \<times> 'f state" where
  "plot_reading topic data s0 =
     (let s = emit (PlotCall topic data) s0 in
      if data = ''nan'' then (Inr (), s)
      else if falsy (plots s) then (Inl AttributeError, s)
      else (Inl NameError, s))"

text \<open>
  \<^verbatim>\<open>write_last_reading\<close> (lines 85 to 95); \<open>now\<close> is the text of
  \<^verbatim>\<open>datetime.now()\<close> at the call. Opening the file for appending creates it.
\<close>

definition header :: string where
  "header = ''date,topic,data''"

definition newline :: string where
  "newline = [CHR 0x0A]"

definition writelines :: "string list \<Rightarrow> 'f state \<Rightarrow> 'f state" where
  "writelines ls s =
     emit (FileWrite ls)
       (s\<lparr>logfile := Some ((case logfile s of None \<Rightarrow> [] | Some c \<Rightarrow> c) @ concat ls)\<rparr>)"

definition write_last_reading :: "string \<Rightarrow> string \<Rightarrow> 'f state \<Rightarrow> unit result \<times> 'f state" where
  "write_last_reading now topic s =
     (case readings s topic of
        None \<Rightarrow> (Inl KeyError, s)
      | Some rs \<Rightarrow>
          (if rs = [] then (Inl IndexError, s)
           else
             let line = now @ '','' @ topic @ '','' @ last rs;
                 write_headers = (logfile s = None);
                 s1 = s\<lparr>logfile := Some (case logfile s of None \<Rightarrow> [] | Some c \<Rightarrow> c)\<rparr>;
                 s2 = (if write_headers then writelines [header, newline] s1 else s1)
             in (Inr (), writelines [line, newline] s2)))"

text \<open>\<^verbatim>\<open>add_reading\<close> (lines 70 to 83).\<close>

definition add_reading :: "string \<Rightarrow> string \<Rightarrow> string \<Rightarrow> 'f state \<Rightarrow> unit result \<times> 'f state" where
  "add_reading now topic data =
     with_lock (\<lambda>s.
       case readings s topic of
         None \<Rightarrow> (Inr (), s)
       | Some rs \<Rightarrow>
           bind_r (if plot s then plot_reading topic data else return_r ())
             (\<lambda>_. write_last_reading now topic)
             (emit (Append topic data) (s\<lparr>readings := (readings s)(topic \<mapsto> rs @ [data])\<rparr>)))"

text \<open>
  Line 144, \<^verbatim>\<open>str(message.payload.decode("utf-8"))\<close>, under Python 2 (the source
  calls \<^verbatim>\<open>raw_input\<close>): the payload is a byte string; \<^verbatim>\<open>decode\<close> raises
  \<^verbatim>\<open>UnicodeDecodeError\<close> on bytes that are not UTF-8, and \<^verbatim>\<open>str\<close> of the
  decoded text raises \<^verbatim>\<open>UnicodeEncodeError\<close> unless every character is ASCII. So
  the line returns on the payloads whose bytes are all below 128, with the payload
  itself, and raises on every other payload.
\<close>

definition is_ascii :: "char \<Rightarrow> bool" where
  "is_ascii c = (\<not> digit7 c)"

definition decode_payload :: "string \<Rightarrow> string result" where
  "decode_payload payload = (if list_all is_ascii payload then Inr payload else Inl UnicodeError)"

text \<open>
  \<^verbatim>\<open>on_message\<close> (lines 143 to 148): the decoding stands before the
  \<^verbatim>\<open>try\<close>; \<^verbatim>\<open>except Exception\<close> catches whatever \<^verbatim>\<open>add_reading\<close>
  raises.
\<close>

definition on_message :: "string \<Rightarrow> string \<Rightarrow> string \<Rightarrow> 'f state \<Rightarrow> unit result \<times> 'f state" where
  "on_message now topic payload s =
     (case decode_payload payload of
        Inl e \<Rightarrow> (Inl e, s)
      | Inr data \<Rightarrow>
          (case add_reading now topic data s of
             (Inl e, s') \<Rightarrow> (if e = Blocked then (Inl Blocked, s') else (Inr (), s'))
           | (Inr u, s') \<Rightarrow> (Inr u, s')))"

subsection \<open>Loading the history\<close>

text \<open>\<^verbatim>\<open>f.readlines()\<close>: the lines of the content, each with its terminator.\<close>

fun readlines :: "string \<Rightarrow> string list" where
  "readlines [] = []"
| "readlines (c # cs) =
     (if c = CHR 0x0A then [c] # readlines cs
      else (case readlines cs of [] \<Rightarrow> [[c]] | l # ls \<Rightarrow> (c # l) # ls))"

text \<open>\<^verbatim>\<open>line.split(',')\<close>: never empty.\<close>

fun split_comma :: "string \<Rightarrow> string list" where
  "split_comma [] = [[]]"
| "split_comma (c # cs) =
     (if c = CHR '','' then [] # split_comma cs
      else (case split_comma cs of [] \<Rightarrow> [[c]] | w # ws \<Rightarrow> (c # w) # ws))"

text \<open>
  The slice \<^verbatim>\<open>xs[i:]\<close>: a negative \<open>i\<close> counts from the end, and the start is
  clipped to the list. \<^verbatim>\<open>xs[-n:]\<close> is \<open>slice_from (- n) xs\<close>.
\<close>

definition slice_from :: "int \<Rightarrow> 'a list \<Rightarrow> 'a list" where
  "slice_from i xs = (if i < 0 then drop (nat (int (length xs) + i)) xs else drop (nat i) xs)"

text \<open>
  The trim \<^verbatim>\<open>xs[-self.max_plot:]\<close> of lines 47 and 48: the unary minus raises
  \<^verbatim>\<open>TypeError\<close> on a string.
\<close>

definition trim :: "pyval \<Rightarrow> 'a list \<Rightarrow> 'a list result" where
  "trim n xs = (case n of IntVal k \<Rightarrow> Inr (slice_from (- k) xs) | StrVal v \<Rightarrow> Inl TypeError)"

text \<open>
  The inner loop of lines 43 to 48 over \<^verbatim>\<open>zip(header[1:], data[1:])\<close>; \<open>x\<close> is
  \<^verbatim>\<open>data[0]\<close> and \<open>pyfloat\<close> is Python's \<^verbatim>\<open>float\<close> on strings, \<open>None\<close>
  where it raises \<^verbatim>\<open>ValueError\<close>.
\<close>

fun load_pairs ::
  "(string \<Rightarrow> 'f option) \<Rightarrow> string list \<Rightarrow> pyval \<Rightarrow> string \<Rightarrow> (string \<times> string) list \<Rightarrow>
   (string \<rightharpoonup> (string list \<times> 'f list)) \<Rightarrow> (string \<rightharpoonup> (string list \<times> 'f list)) result" where
  "load_pairs pyfloat tps n x [] dp = Inr dp"
| "load_pairs pyfloat tps n x ((topic, val) # ps) dp =
     (if topic \<in> set tps then
        (case dp topic of
           None \<Rightarrow> Inl KeyError
         | Some (xs, ys) \<Rightarrow>
             (case pyfloat val of
                None \<Rightarrow> Inl ValueError
              | Some y \<Rightarrow>
                  (case trim n (xs @ [x]) of
                     Inl e \<Rightarrow> Inl e
                   | Inr xs' \<Rightarrow>
                       (case trim n (ys @ [y]) of
                          Inl e \<Rightarrow> Inl e
                        | Inr ys' \<Rightarrow> load_pairs pyfloat tps n x ps (dp(topic \<mapsto> (xs', ys')))))))
      else load_pairs pyfloat tps n x ps dp)"

text \<open>The outer loop of lines 38 to 48; \<open>i\<close> is the index \<^verbatim>\<open>enumerate\<close> gives.\<close>

fun load_lines ::
  "(string \<Rightarrow> 'f option) \<Rightarrow> string list \<Rightarrow> pyval \<Rightarrow> string list \<Rightarrow> nat \<Rightarrow> string list \<Rightarrow>
   (string \<rightharpoonup> (string list \<times> 'f list)) \<Rightarrow> (string \<rightharpoonup> (string list \<times> 'f list)) result" where
  "load_lines pyfloat tps n hdr i [] dp = Inr dp"
| "load_lines pyfloat tps n hdr i (line # rest) dp =
     (let data = split_comma line in
      if i = 0 then load_lines pyfloat tps n data (Suc i) rest dp
      else
        (case data of
           [] \<Rightarrow> Inl IndexError
         | x # vals \<Rightarrow>
             (case load_pairs pyfloat tps n x (zip (drop 1 hdr) vals) dp of
                Inl e \<Rightarrow> Inl e
              | Inr dp' \<Rightarrow> load_lines pyfloat tps n hdr (Suc i) rest dp')))"

text \<open>
  \<^verbatim>\<open>UserData.__init__\<close> (lines 22 to 48); \<open>fs\<close> is the content of the file named
  \<^verbatim>\<open>filename\<close> when the program starts.
\<close>

definition init ::
  "(string \<Rightarrow> 'f option) \<Rightarrow> string option \<Rightarrow> string \<Rightarrow> string list \<Rightarrow> bool \<Rightarrow> bool \<Rightarrow> pyval \<Rightarrow>
   'f state result" where
  "init pyfloat fs fname tps verb plt n =
     (let s = \<lparr>filename = fname, topics = tps, verbose = verb, plot = plt, locked = False,
                readings = map_of (map (\<lambda>topic. (topic, [])) tps),
                plots = None, max_plot = n,
                default_plot = map_of (map (\<lambda>topic. (topic, ([], []))) tps),
                u_connected = False, u_last_connected = False,
                logfile = fs, trace = []\<rparr>
      in case fs of
           None \<Rightarrow> Inr s
         | Some content \<Rightarrow>
             (if plt then
                (case load_lines pyfloat tps n [] 0 (readlines content) (default_plot s) of
                   Inl e \<Rightarrow> Inl e
                 | Inr dp \<Rightarrow> Inr (s\<lparr>default_plot := dp\<rparr>))
              else Inr s))"

subsection \<open>The loop of the plotting mode\<close>

text \<open>
  What the transport delivers; a message comes with the time of its handling, its topic
  and the bytes of its payload.
\<close>

datatype delivery =
    ConnAck int
  | Disconnect int
  | Message string string string

fun dispatch :: "delivery \<Rightarrow> 'f state \<Rightarrow> unit result \<times> 'f state" where
  "dispatch (ConnAck rc) = on_connect rc"
| "dispatch (Disconnect rc) = on_disconnect rc"
| "dispatch (Message now topic data) = on_message now topic data"

text \<open>
  Modelled from the spec: the transport's \<^verbatim>\<open>client.loop()\<close> is not part of the
  repository. It hands the pending deliveries of one call to the callbacks, in order.
  Whether an exception of a callback leaves \<^verbatim>\<open>loop()\<close> or is swallowed there is
  the transport's choice, the parameter \<open>suppress\<close>.
\<close>

fun client_loop :: "bool \<Rightarrow> delivery list \<Rightarrow> 'f state \<Rightarrow> unit result \<times> 'f state" where
  "client_loop suppress [] s = (Inr (), s)"
| "client_loop suppress (d # ds) s =
     (case dispatch d s of
        (Inl e, s') \<Rightarrow>
          (if suppress \<and> e \<noteq> Blocked then client_loop suppress ds s' else (Inl e, s'))
      | (Inr _, s') \<Rightarrow> client_loop suppress ds s')"

text \<open>Lines 172 to 174; \<^verbatim>\<open>and\<close> reads \<^verbatim>\<open>last_connected\<close> only if needed.\<close>

definition reconnect_check :: "'f state \<Rightarrow> unit result \<times> 'f state" where
  "reconnect_check =
     bind_r (getattr_p A_connected) (\<lambda>c.
       if \<not> c then
         bind_r (getattr_p A_last_connected) (\<lambda>l.
           if l then
             bind_r (setattr_p A_last_connected False) (\<lambda>_ s. (Inr (), emit Connect s))
           else return_r ())
       else return_r ())"

text \<open>
  The \<^verbatim>\<open>while True\<close> of lines 168 to 174, for as many iterations as there are
  inboxes: the \<open>k\<close>-th inbox is what \<^verbatim>\<open>client.loop()\<close> delivers in iteration
  \<open>k\<close>. An exception ends the loop, and \<^verbatim>\<open>main\<close> with it.
\<close>

fun active_loop :: "bool \<Rightarrow> delivery list list \<Rightarrow> 'f state \<Rightarrow> unit result \<times> 'f state" where
  "active_loop suppress [] s = (Inr (), s)"
| "active_loop suppress (inbox # rest) s =
     (case client_loop suppress inbox s of
        (Inl e, s') \<Rightarrow> (Inl e, s')
      | (Inr _, s') \<Rightarrow>
          (case reconnect_check s' of
             (Inl e, s'') \<Rightarrow> (Inl e, s'')
           | (Inr _, s'') \<Rightarrow> active_loop suppress rest s''))"

text \<open>The connect attempts in a trace.\<close>

definition connects :: "(bool \<times> effect) list \<Rightarrow> nat" where
  "connects tr = length (filter (\<lambda>(h, e). e = Connect) tr)"

text \<open>
  The option \<^verbatim>\<open>-n\<close> (lines 197 and 198) has the default 120 and no
  \<^verbatim>\<open>type\<close>: a value given on the command line reaches \<^verbatim>\<open>main\<close> as the
  text it is.
\<close>

definition max_plot_arg :: "string option \<Rightarrow> pyval" where
  "max_plot_arg opt = (case opt of None \<Rightarrow> IntVal 120 | Some v \<Rightarrow> StrVal v)"

text \<open>
  \<^verbatim>\<open>main\<close> with plotting on (lines 153 to 161, then 168 to 174): the object is
  built, the first connect is issued, and the loop runs.
\<close>

definition main_plot ::
  "(string \<Rightarrow> 'f option) \<Rightarrow> bool \<Rightarrow> string option \<Rightarrow> string \<Rightarrow> string list \<Rightarrow> bool \<Rightarrow> pyval \<Rightarrow>
   delivery list list \<Rightarrow> (unit result \<times> 'f state) result" where
  "main_plot pyfloat suppress fs fname tps verb n inboxes =
     (case init pyfloat fs fname tps verb True n of
        Inl e \<Rightarrow> Inl e
      | Inr s \<Rightarrow> Inr (active_loop suppress inboxes (emit Connect s)))"

subsection \<open>Notions used in the statements\<close>

text \<open>The line \<^verbatim>\<open>write_last_reading\<close> formats, without its terminator.\<close>

definition data_line :: "string \<Rightarrow> string \<Rightarrow> string \<Rightarrow> string" where
  "data_line now topic v = now @ '','' @ topic @ '','' @ v"

text \<open>
  A run of \<^verbatim>\<open>write_last_reading\<close> calls, each with its time, its topic and the
  reading that \<^verbatim>\<open>add_reading\<close> has stored for the topic (line 75) before it makes
  the call (line 83).
\<close>

fun write_run :: "(string \<times> string \<times> string) list \<Rightarrow> 'f state \<Rightarrow> unit result \<times> 'f state" where
  "write_run [] s = (Inr (), s)"
| "write_run ((now, topic, data) # cs) s =
     (case readings s topic of
        None \<Rightarrow> (Inl KeyError, s)
      | Some rs \<Rightarrow>
          (case write_last_reading now topic (s\<lparr>readings := (readings s)(topic \<mapsto> rs @ [data])\<rparr>) of
             (Inl e, s') \<Rightarrow> (Inl e, s')
           | (Inr _, s') \<Rightarrow> write_run cs s'))"






text \<open>The window of a topic after \<^verbatim>\<open>__init__\<close>, or the exception it raised.\<close>

definition window_of :: "string \<Rightarrow> 'f state result \<Rightarrow> (string list \<times> 'f list) option result" where
  "window_of t r = (case r of Inl e \<Rightarrow> Inl e | Inr s \<Rightarrow> Inr (default_plot s t))"

text \<open>The number of connect attempts and the outcome of a run of the plotting mode.\<close>

definition connects_of :: "(unit result \<times> 'f state) result \<Rightarrow> nat result" where
  "connects_of r = (case r of Inl e \<Rightarrow> Inl e | Inr (_, s) \<Rightarrow> Inr (connects (trace s)))"

definition outcome_of :: "(unit result \<times> 'f state) result \<Rightarrow> unit result" where
  "outcome_of r = (case r of Inl e \<Rightarrow> Inl e | Inr (x, _) \<Rightarrow> x)"

subsection \<open>A float reader and a configuration for the examples\<close>

text \<open>
  The theorems hold for every reader \<open>pyfloat\<close>. The examples need one: this one reads
  the literals \<^verbatim>\<open>[sign] digits [. digits]\<close> and \<^verbatim>\<open>nan\<close>, between white space,
  as \<^verbatim>\<open>float\<close> does, and nothing else; the examples use no other text that
  \<^verbatim>\<open>float\<close> accepts.
\<close>

datatype pyfloat =
    Decimal bool nat nat  \<comment> \<open>negative, the digits as a number, how many follow the point\<close>
  | NotANumber

definition is_space :: "char \<Rightarrow> bool" where
  "is_space c = (c = CHR '' '' \<or> c = CHR 0x0A \<or> c = CHR 0x09 \<or> c = CHR 0x0D)"

definition strip :: "string \<Rightarrow> string" where
  "strip s = rev (dropWhile is_space (rev (dropWhile is_space s)))"

definition digit_of :: "char \<Rightarrow> nat option" where
  "digit_of = map_of (zip ''0123456789'' [0, 1, 2, 3, 4, 5, 6, 7, 8, 9])"

fun digits_of :: "nat \<Rightarrow> string \<Rightarrow> nat option" where
  "digits_of acc [] = Some acc"
| "digits_of acc (c # cs) =
     (case digit_of c of None \<Rightarrow> None | Some d \<Rightarrow> digits_of (10 * acc + d) cs)"

definition unsigned_float :: "bool \<Rightarrow> string \<Rightarrow> pyfloat option" where
  "unsigned_float neg s =
     (if s = ''nan'' then Some NotANumber
      else
        let ip = takeWhile (\<lambda>c. c \<noteq> CHR ''.'') s;
            fp = drop 1 (dropWhile (\<lambda>c. c \<noteq> CHR ''.'') s)
        in if ip = [] \<and> fp = [] then None
           else (case digits_of 0 (ip @ fp) of
                   None \<Rightarrow> None
                 | Some m \<Rightarrow> Some (Decimal neg m (length fp))))"

definition sample_float :: "string \<Rightarrow> pyfloat option" where
  "sample_float s0 =
     (case strip s0 of
        [] \<Rightarrow> None
      | c # cs \<Rightarrow>
          (if c = CHR ''-'' then unsigned_float True cs
           else if c = CHR ''+'' then unsigned_float False cs
           else unsigned_float False (c # cs)))"

text \<open>The configuration of the scenarios: two topics, the window size of the default.\<close>

definition station_topics :: "string list" where
  "station_topics = [''stationA/temp'', ''stationA/humidity'']"

definition fresh :: "bool \<Rightarrow> pyfloat state" where
  "fresh plt =
     \<lparr>filename = ''P1.csv'', topics = station_topics, verbose = False, plot = plt, locked = False,
      readings = map_of (map (\<lambda>topic. (topic, [])) station_topics),
      plots = None, max_plot = max_plot_arg None,
      default_plot = map_of (map (\<lambda>topic. (topic, ([], []))) station_topics),
      u_connected = False, u_last_connected = False,
      logfile = None, trace = []\<rparr>"

section \<open>Properties\<close>

subsection \<open>The lock and the two properties\<close>

lemma unlock_id: "\<not> locked s \<Longrightarrow> s\<lparr>locked := False\<rparr> = s"
  by (cases s) simp

lemma class_table:
  "fget (UserData_class A_connected :: 'f property) = Some last_connected_getter"
  "fset (UserData_class A_connected :: 'f property) = Some connected_66"
  "fget (UserData_class A_last_connected :: 'f property) = Some last_connected_getter"
  "fset (UserData_class A_last_connected :: 'f property) = None"
  by (simp_all add: UserData_class_def Let_def property_of_def setter_def)

lemma getattr_free: "\<not> locked s \<Longrightarrow> getattr_p a s = (Inr (u_last_connected s), s)"
  by (cases a)
    (simp_all add: getattr_p_def class_table last_connected_getter_def with_lock_def unlock_id)

lemma getattr_held: "locked s \<Longrightarrow> getattr_p a s = (Inl Blocked, s)"
  by (cases a) (simp_all add: getattr_p_def class_table last_connected_getter_def with_lock_def)

lemma setattr_connected_free:
  "\<not> locked s \<Longrightarrow> setattr_p A_connected v s = (Inr (), s\<lparr>u_last_connected := v\<rparr>)"
  by (cases s) (simp add: setattr_p_def class_table connected_66_def with_lock_def)

lemma setattr_connected_held: "locked s \<Longrightarrow> setattr_p A_connected v s = (Inl Blocked, s)"
  by (simp add: setattr_p_def class_table connected_66_def with_lock_def)

lemma setattr_last_connected: "setattr_p A_last_connected v s = (Inl AttributeError, s)"
  by (simp add: setattr_p_def class_table)

lemma fresh_free: "\<not> locked (fresh plt)"
  by (simp add: fresh_def)

text \<open>The configuration of the examples is what \<^verbatim>\<open>__init__\<close> builds without a log.\<close>

lemma init_fresh:
  "init sample_float None ''P1.csv'' station_topics False plt (max_plot_arg None) = Inr (fresh plt)"
  by (simp add: init_def fresh_def)

text \<open>
  C10. The name \<^verbatim>\<open>last_connected\<close> is bound to a property without a setter, so
  every assignment to it raises \<^verbatim>\<open>AttributeError\<close> and changes nothing; the setter
  of line 66 is bound to the name \<^verbatim>\<open>connected\<close>, so an assignment to
  \<^verbatim>\<open>connected\<close> never changes \<^verbatim>\<open>_connected\<close> and, the lock being free,
  writes \<^verbatim>\<open>_last_connected\<close>.
\<close>

theorem property_assignments:
  "setattr_p A_last_connected v s = (Inl AttributeError, s)
   \<and> fset (UserData_class A_last_connected :: 'f property) = None
   \<and> fset (UserData_class A_connected :: 'f property) = Some connected_66
   \<and> u_connected (snd (setattr_p A_connected v s)) = u_connected s
   \<and> (\<not> locked s \<longrightarrow> setattr_p A_connected v (s :: 'f state) = (Inr (), s\<lparr>u_last_connected := v\<rparr>))"
  by (cases "locked s")
    (simp_all add: setattr_last_connected class_table setattr_connected_free setattr_connected_held)

theorem property_assignments_witness:
  "\<not> locked (fresh False)
   \<and> setattr_p A_last_connected True (fresh False) = (Inl AttributeError, fresh False)
   \<and> setattr_p A_connected True (fresh False) = (Inr (), (fresh False)\<lparr>u_last_connected := True\<rparr>)
   \<and> u_connected (snd (setattr_p A_connected True (fresh False))) = False"
  using property_assignments [of True "fresh False"] by (simp add: fresh_def)

subsection \<open>The connection callbacks\<close>

lemma subscribe_all_eq:
  "subscribe_all ts s = s\<lparr>trace := trace s @ map (\<lambda>t. (locked s, Subscribe t)) ts\<rparr>"
  by (induction ts arbitrary: s) (simp_all add: emit_def)

lemma on_connect_zero:
  "\<not> locked s \<Longrightarrow>
   on_connect 0 s =
     (Inl AttributeError,
      s\<lparr>u_last_connected := True, trace := trace s @ map (\<lambda>t. (False, Subscribe t)) (topics s)\<rparr>)"
  by (cases s)
    (simp add: on_connect_def bind_r_def subscribe_all_eq setattr_connected_free
      setattr_last_connected)

lemma on_connect_nonzero: "rc \<noteq> 0 \<Longrightarrow> on_connect rc s = (Inr (), s)"
  by (simp add: on_connect_def)

lemma on_connect_held:
  "locked s \<Longrightarrow>
   on_connect 0 s = (Inl Blocked, s\<lparr>trace := trace s @ map (\<lambda>t. (True, Subscribe t)) (topics s)\<rparr>)"
  by (simp add: on_connect_def bind_r_def subscribe_all_eq setattr_connected_held)

lemma on_disconnect_free:
  "\<not> locked s \<Longrightarrow> on_disconnect rc s = (Inr (), s\<lparr>u_last_connected := False\<rparr>)"
  by (simp add: on_disconnect_def setattr_connected_free)

lemma on_disconnect_held: "locked s \<Longrightarrow> on_disconnect rc s = (Inl Blocked, s)"
  by (simp add: on_disconnect_def setattr_connected_held)

text \<open>
  C1. A connect acknowledgement with result code 0 on the fresh object: both topics
  are subscribed, the assignment of line 139 sets \<^verbatim>\<open>_last_connected\<close>, the
  assignment of line 140 raises \<^verbatim>\<open>AttributeError\<close>, and \<^verbatim>\<open>_connected\<close> is
  still false when the handler is left.
\<close>

theorem on_connect_success_run:
  "fst (on_connect 0 (fresh True)) = Inl AttributeError
   \<and> u_connected (snd (on_connect 0 (fresh True))) = False
   \<and> u_last_connected (snd (on_connect 0 (fresh True))) = True
   \<and> trace (snd (on_connect 0 (fresh True))) =
       [(False, Subscribe ''stationA/temp''), (False, Subscribe ''stationA/humidity'')]"
  by (simp add: on_connect_zero fresh_free) (simp add: fresh_def station_topics_def)

subsection \<open>Recording a reading\<close>

lemma connects_append: "connects (tr @ tr') = connects tr + connects tr'"
  by (simp add: connects_def)

lemma write_last_reading_ok:
  "readings s topic = Some (rs @ [v]) \<Longrightarrow>
   write_last_reading now topic s =
     (Inr (),
      s\<lparr>logfile := Some ((case logfile s of None \<Rightarrow> header @ newline | Some c \<Rightarrow> c)
                            @ data_line now topic v @ newline),
        trace := trace s
                   @ (case logfile s of None \<Rightarrow> [(locked s, FileWrite [header, newline])] | Some c \<Rightarrow> [])
                   @ [(locked s, FileWrite [data_line now topic v, newline])]\<rparr>)"
  by (cases "logfile s")
    (simp_all add: write_last_reading_def Let_def writelines_def emit_def data_line_def)

lemma add_reading_held: "locked s \<Longrightarrow> add_reading now topic data s = (Inl Blocked, s)"
  by (simp add: add_reading_def with_lock_def)

lemma add_reading_unconfigured:
  "\<not> locked s \<Longrightarrow> readings s topic = None \<Longrightarrow> add_reading now topic data s = (Inr (), s)"
  by (simp add: add_reading_def with_lock_def unlock_id)

text \<open>The call on a configured topic when the plotting step returns.\<close>

lemma add_reading_persists:
  "\<not> locked s \<Longrightarrow> readings s topic = Some rs \<Longrightarrow> plot s \<longrightarrow> data = ''nan'' \<Longrightarrow>
   add_reading now topic data s =
     (Inr (),
      s\<lparr>readings := (readings s)(topic \<mapsto> rs @ [data]),
        logfile := Some ((case logfile s of None \<Rightarrow> header @ newline | Some c \<Rightarrow> c)
                            @ data_line now topic data @ newline),
        trace := trace s @ [(True, Append topic data)]
                   @ (if plot s then [(True, PlotCall topic data)] else [])
                   @ (case logfile s of None \<Rightarrow> [(True, FileWrite [header, newline])] | Some c \<Rightarrow> [])
                   @ [(True, FileWrite [data_line now topic data, newline])]\<rparr>)"
  by (cases s)
    (auto simp add: add_reading_def with_lock_def bind_r_def return_r_def emit_def
      plot_reading_def write_last_reading_def Let_def writelines_def data_line_def
      split: option.splits)

text \<open>The call on a configured topic when the plotting step raises.\<close>

lemma add_reading_raises:
  "\<not> locked s \<Longrightarrow> readings s topic = Some rs \<Longrightarrow> plot s \<Longrightarrow> data \<noteq> ''nan'' \<Longrightarrow>
   add_reading now topic data s =
     (Inl (if falsy (plots s) then AttributeError else NameError),
      s\<lparr>readings := (readings s)(topic \<mapsto> rs @ [data]),
        trace := trace s @ [(True, Append topic data), (True, PlotCall topic data)]\<rparr>)"
  by (cases s)
    (simp add: add_reading_def with_lock_def bind_r_def emit_def plot_reading_def Let_def)

lemma on_message_undecodable:
  "\<not> list_all is_ascii payload \<Longrightarrow> on_message now topic payload s = (Inl UnicodeError, s)"
  by (simp add: on_message_def decode_payload_def)

lemma on_message_decoded:
  "list_all is_ascii payload \<Longrightarrow>
   on_message now topic payload s =
     (case add_reading now topic payload s of
        (Inl e, s') \<Rightarrow> (if e = Blocked then (Inl Blocked, s') else (Inr (), s'))
      | (Inr u, s') \<Rightarrow> (Inr u, s'))"
  by (simp add: on_message_def decode_payload_def)

lemma on_message_returns:
  "\<not> locked s \<Longrightarrow> list_all is_ascii payload \<Longrightarrow> fst (on_message now topic payload s) = Inr ()"
  apply (cases "readings s topic")
   apply (simp add: on_message_decoded add_reading_unconfigured)
  apply (cases "plot s \<longrightarrow> payload = ''nan''")
   apply (simp add: on_message_decoded add_reading_persists)
  apply (simp add: on_message_decoded add_reading_raises)
  done

lemma on_message_windows:
  "default_plot (snd (on_message now topic payload s)) = default_plot s
   \<and> plots (snd (on_message now topic payload s)) = plots s
   \<and> u_last_connected (snd (on_message now topic payload s)) = u_last_connected s
   \<and> u_connected (snd (on_message now topic payload s)) = u_connected s
   \<and> locked (snd (on_message now topic payload s)) = locked s
   \<and> connects (trace (snd (on_message now topic payload s))) = connects (trace s)"
  apply (cases "list_all is_ascii payload")
   prefer 2
   apply (simp add: on_message_undecodable)
  apply (cases "locked s")
   apply (simp add: on_message_decoded add_reading_held)
  apply (cases "readings s topic")
   apply (simp add: on_message_decoded add_reading_unconfigured)
  apply (cases "plot s \<longrightarrow> payload = ''nan''")
   apply (simp add: on_message_decoded add_reading_persists connects_append)
   apply (simp add: connects_def split: option.splits)
  apply (simp add: on_message_decoded add_reading_raises connects_append)
  apply (simp add: connects_def)
  done

lemma map_of_const: "map_of (map (\<lambda>t. (t, c)) ts) x = (if x \<in> set ts then Some c else None)"
  by (induction ts) simp_all

lemma dom_map_of_const: "dom (map_of (map (\<lambda>t. (t, c)) ts)) = set ts"
  by (auto simp add: map_of_const dom_def)

lemma init_fields:
  "init pyfloat fs fname tps verb plt n = Inr s \<Longrightarrow>
   readings s = map_of (map (\<lambda>topic. (topic, [])) tps) \<and> topics s = tps \<and> \<not> locked s"
  by (auto simp add: init_def Let_def split: option.splits if_splits sum.splits)

lemma init_readings_dom:
  "init pyfloat fs fname tps verb plt n = Inr s \<Longrightarrow> dom (readings s) = set (topics s)"
  by (simp add: init_fields dom_map_of_const)

lemma add_reading_dom:
  "dom (readings (snd (add_reading now topic data s))) = dom (readings s)
   \<and> topics (snd (add_reading now topic data s)) = topics s"
  apply (cases "locked s")
   apply (simp add: add_reading_held)
  apply (cases "readings s topic")
   apply (simp add: add_reading_unconfigured)
  apply (cases "plot s \<longrightarrow> data = ''nan''")
   apply (auto simp add: add_reading_persists add_reading_raises)
  done

lemma on_message_dom:
  "dom (readings (snd (on_message now topic payload s))) = dom (readings s)
   \<and> topics (snd (on_message now topic payload s)) = topics s"
proof (cases "list_all is_ascii payload")
  case False
  then show ?thesis by (simp add: on_message_undecodable)
next
  case True
  obtain r s' where a: "add_reading now topic payload s = (r, s')"
    by (cases "add_reading now topic payload s")
  with add_reading_dom [of now topic payload s] show ?thesis
    by (cases r) (simp_all add: on_message_decoded [OF True])
qed

lemma dispatch_dom:
  "dom (readings (snd (dispatch d s))) = dom (readings s)
   \<and> topics (snd (dispatch d s)) = topics s"
proof (cases d)
  case (ConnAck rc)
  then show ?thesis
    by (cases "rc = 0"; cases "locked s")
      (simp_all add: on_connect_zero on_connect_held on_connect_nonzero)
next
  case (Disconnect rc)
  then show ?thesis
    by (cases "locked s") (simp_all add: on_disconnect_free on_disconnect_held)
next
  case (Message now topic payload)
  then show ?thesis by (simp add: on_message_dom)
qed

subsection \<open>Unconfigured topics\<close>

text \<open>
  C8. The keys of \<^verbatim>\<open>readings\<close> are the configured topics from
  \<^verbatim>\<open>__init__\<close> on, whatever is delivered (\<open>init_readings_dom\<close>,
  \<open>add_reading_dom\<close>, \<open>dispatch_dom\<close>). On such an
  object, \<^verbatim>\<open>add_reading\<close> with a topic that is not configured returns normally
  and leaves the whole state as it was: no key, no reading, no line in the log, no
  effect.
\<close>

theorem add_reading_unconfigured_noop:
  "\<not> locked s \<Longrightarrow> dom (readings s) = set (topics s) \<Longrightarrow> topic \<notin> set (topics s) \<Longrightarrow>
   add_reading now topic data s = (Inr (), s)"
  by (rule add_reading_unconfigured) auto

theorem add_reading_unconfigured_noop_witness:
  "\<not> locked (fresh False) \<and> dom (readings (fresh False)) = set (topics (fresh False))
   \<and> ''stationB/temp'' \<notin> set (topics (fresh False))
   \<and> add_reading ''2019-01-01 10:00:00'' ''stationB/temp'' ''21.5'' (fresh False) = (Inr (), fresh False)"
  using add_reading_unconfigured_noop
    [of "fresh False" "''stationB/temp''" "''2019-01-01 10:00:00''" "''21.5''"]
  by (simp add: fresh_def station_topics_def)

lemma plot_reading_windows:
  "default_plot (snd (plot_reading topic data s)) = default_plot s
   \<and> plots (snd (plot_reading topic data s)) = plots s"
  by (simp add: plot_reading_def Let_def emit_def)

subsection \<open>Values that are not numbers\<close>

lemma fresh_reading: "readings (fresh plt) ''stationA/temp'' = Some []"
  by (simp add: fresh_def station_topics_def)

text \<open>
  C5. A payload that is not ASCII text, here the single byte 255, on a configured topic:
  line 144 raises before the \<^verbatim>\<open>try\<close> is entered, and the exception leaves
  \<^verbatim>\<open>on_message\<close>. A payload that is text and no number, \<^verbatim>\<open>abc\<close>, with
  plotting on: \<^verbatim>\<open>plot_reading\<close> does not skip it but leaves by the
  \<^verbatim>\<open>AttributeError\<close> of line 115; \<^verbatim>\<open>on_message\<close> catches that, and the
  reading is in the store and not in the log.
\<close>

theorem non_numeric_runs:
  "on_message ''2019-01-01 10:00:00'' ''stationA/temp'' [CHR 0xFF] (fresh False)
     = (Inl UnicodeError, fresh False)
   \<and> sample_float ''abc'' = None
   \<and> fst (plot_reading ''stationA/temp'' ''abc'' (fresh True)) = Inl AttributeError
   \<and> fst (on_message ''2019-01-01 10:00:00'' ''stationA/temp'' ''abc'' (fresh True)) = Inr ()
   \<and> readings (snd (on_message ''2019-01-01 10:00:00'' ''stationA/temp'' ''abc'' (fresh True)))
        ''stationA/temp'' = Some [''abc'']
   \<and> logfile (snd (on_message ''2019-01-01 10:00:00'' ''stationA/temp'' ''abc'' (fresh True))) = None"
proof -
  have p: "plot (fresh True)" by (simp add: fresh_def)
  have a: "list_all is_ascii ''abc''" by (simp add: is_ascii_def)
  have b: "\<not> list_all is_ascii [CHR 0xFF]" by (simp add: is_ascii_def)
  have f: "sample_float ''abc'' = None"
    by (simp add: sample_float_def strip_def is_space_def unsigned_float_def digit_of_def)
  have q: "fst (plot_reading ''stationA/temp'' ''abc'' (fresh True)) = Inl AttributeError"
    by (simp add: plot_reading_def Let_def emit_def falsy_def fresh_def)
  show ?thesis
    by (simp add: on_message_undecodable [OF b] on_message_decoded [OF a] f q
        add_reading_raises [OF fresh_free fresh_reading p])
      (simp add: fresh_def falsy_def)
qed

subsection \<open>The order of the effects of a reading\<close>

text \<open>
  C3. With plotting on, the reading \<^verbatim>\<open>21.5\<close> on a configured topic is appended
  to the store; then \<^verbatim>\<open>plot_reading\<close> is entered and raises the
  \<^verbatim>\<open>AttributeError\<close> of line 115 (\<^verbatim>\<open>self.stations\<close> is defined nowhere);
  \<^verbatim>\<open>add_reading\<close> is left there, the lock released, and
  \<^verbatim>\<open>write_last_reading\<close> is not called: nothing is persisted, and no window is
  updated.
\<close>

theorem add_reading_plot_run:
  "fst (add_reading ''2019-01-01 10:00:00'' ''stationA/temp'' ''21.5'' (fresh True)) = Inl AttributeError
   \<and> logfile (snd (add_reading ''2019-01-01 10:00:00'' ''stationA/temp'' ''21.5'' (fresh True))) = None
   \<and> trace (snd (add_reading ''2019-01-01 10:00:00'' ''stationA/temp'' ''21.5'' (fresh True))) =
       [(True, Append ''stationA/temp'' ''21.5''), (True, PlotCall ''stationA/temp'' ''21.5'')]"
proof -
  have p: "plot (fresh True)" by (simp add: fresh_def)
  show ?thesis
    by (simp add: add_reading_raises [OF fresh_free fresh_reading p]) (simp add: fresh_def falsy_def)
qed

subsection \<open>The lines of the log\<close>













text \<open>
  The call that \<^verbatim>\<open>add_reading\<close> makes, when the plotting step returns, is a step
  of such a run, made with the lock held.
\<close>

lemma add_reading_write_run:
  "\<not> locked s \<Longrightarrow> readings s topic = Some rs \<Longrightarrow> plot s \<longrightarrow> data = ''nan'' \<Longrightarrow>
   logfile (snd (add_reading now topic data s)) = logfile (snd (write_run [(now, topic, data)] s))
   \<and> readings (snd (add_reading now topic data s)) = readings (snd (write_run [(now, topic, data)] s))"
proof -
  assume a: "\<not> locked s" "readings s topic = Some rs" "plot s \<longrightarrow> data = ''nan''"
  have r1: "readings (s\<lparr>readings := (readings s)(topic \<mapsto> rs @ [data])\<rparr>) topic = Some (rs @ [data])"
    by simp
  show ?thesis
    by (simp add: add_reading_persists [OF a] a(2) write_last_reading_ok [OF r1])
qed




subsection \<open>The reconnect check\<close>

lemma connects_subscribes: "connects (map (\<lambda>t. (b, Subscribe t)) ts) = 0"
  by (induction ts) (simp_all add: connects_def)

lemma on_connect_keeps:
  "connects (trace (snd (on_connect rc s))) = connects (trace s)
   \<and> u_connected (snd (on_connect rc s)) = u_connected s
   \<and> locked (snd (on_connect rc s)) = locked s"
  apply (cases "rc = 0")
   apply (cases "locked s")
    apply (simp_all add: on_connect_held on_connect_zero on_connect_nonzero connects_append
      connects_subscribes)
  done

lemma on_disconnect_keeps:
  "connects (trace (snd (on_disconnect rc s))) = connects (trace s)
   \<and> u_connected (snd (on_disconnect rc s)) = u_connected s
   \<and> locked (snd (on_disconnect rc s)) = locked s"
  by (cases "locked s") (simp_all add: on_disconnect_held on_disconnect_free)

lemma dispatch_keeps:
  "connects (trace (snd (dispatch d s))) = connects (trace s)
   \<and> u_connected (snd (dispatch d s)) = u_connected s
   \<and> locked (snd (dispatch d s)) = locked s"
  by (cases d) (simp_all add: on_connect_keeps on_disconnect_keeps on_message_windows)

lemma client_loop_keeps:
  "connects (trace (snd (client_loop suppress ds s))) = connects (trace s)
   \<and> u_connected (snd (client_loop suppress ds s)) = u_connected s
   \<and> locked (snd (client_loop suppress ds s)) = locked s"
proof (induction ds arbitrary: s)
  case Nil
  show ?case by simp
next
  case (Cons d ds)
  obtain r s' where d: "dispatch d s = (r, s')" by (cases "dispatch d s")
  with dispatch_keeps [of d s] have
    "connects (trace s') = connects (trace s) \<and> u_connected s' = u_connected s \<and> locked s' = locked s"
    by simp
  with Cons.IH [of s'] show ?case
    by (cases r) (auto simp add: d)
qed

lemma reconnect_check_noop:
  "reconnect_check s = ((if locked s then Inl Blocked else Inr ()), s)"
  by (cases "locked s")
    (simp_all add: reconnect_check_def bind_r_def return_r_def getattr_free getattr_held)

lemma active_loop_keeps:
  "connects (trace (snd (active_loop suppress inboxes s))) = connects (trace s)
   \<and> u_connected (snd (active_loop suppress inboxes s)) = u_connected s"
proof (induction inboxes arbitrary: s)
  case Nil
  show ?case by simp
next
  case (Cons inbox inboxes)
  obtain r s' where c: "client_loop suppress inbox s = (r, s')"
    by (cases "client_loop suppress inbox s")
  with client_loop_keeps [of suppress inbox s] have
    "connects (trace s') = connects (trace s) \<and> u_connected s' = u_connected s"
    by simp
  with Cons.IH [of s'] show ?case
    by (cases r) (simp_all add: c reconnect_check_noop)
qed

lemma main_plot_connects_once:
  assumes "init pyfloat fs fname tps verb True n = Inr s"
  shows "connects_of (main_plot pyfloat suppress fs fname tps verb n inboxes)
           = Inr (Suc (connects (trace s)))"
proof -
  obtain r s' where a: "active_loop suppress inboxes (emit Connect s) = (r, s')"
    by (cases "active_loop suppress inboxes (emit Connect s)")
  with active_loop_keeps [of suppress inboxes "emit Connect s"]
  have "connects (trace s') = connects (trace (emit Connect s))" by simp
  also have "\<dots> = Suc (connects (trace s))"
    by (simp add: emit_def connects_append) (simp add: connects_def)
  finally show ?thesis
    by (simp add: main_plot_def connects_of_def assms a)
qed

text \<open>
  C2. Plotting mode, a connect acknowledgement with code 0, then a disconnect with code
  7, then three idle iterations. If the transport swallows the exception of
  \<^verbatim>\<open>on_connect\<close>, the loop runs on and issues no connect: the only connect of the
  run is the one of line 157. If the transport lets it through, \<^verbatim>\<open>main\<close> ends
  with \<^verbatim>\<open>AttributeError\<close> in the first iteration, again with that one connect.
  By \<open>main_plot_connects_once\<close> this is so for every run.
\<close>

theorem no_reconnect_run:
  "connects_of (main_plot sample_float True None ''P1.csv'' station_topics False (max_plot_arg None)
      [[ConnAck 0], [Disconnect 7], [], [], []]) = Inr 1
   \<and> outcome_of (main_plot sample_float True None ''P1.csv'' station_topics False (max_plot_arg None)
      [[ConnAck 0], [Disconnect 7], [], [], []]) = Inr ()
   \<and> connects_of (main_plot sample_float False None ''P1.csv'' station_topics False (max_plot_arg None)
      [[ConnAck 0], [Disconnect 7], [], [], []]) = Inr 1
   \<and> outcome_of (main_plot sample_float False None ''P1.csv'' station_topics False (max_plot_arg None)
      [[ConnAck 0], [Disconnect 7], [], [], []]) = Inl AttributeError"
  by (simp add: main_plot_def init_fresh connects_of_def outcome_of_def emit_def fresh_free
      on_connect_zero on_disconnect_free reconnect_check_noop)
    (simp add: fresh_def connects_def)

subsection \<open>The windows loaded from the log\<close>

















text \<open>
  C4. The log that the program writes for one reading of \<^verbatim>\<open>stationA/temp\<close>,
  read at the next start with plotting on: the loader pairs the header names
  \<^verbatim>\<open>topic\<close> and \<^verbatim>\<open>data\<close> with the fields of the data line (lines 43 and
  44), finds no configured topic among them and leaves the window of
  \<^verbatim>\<open>stationA/temp\<close> empty. And where a header name is a configured topic, a value
  that is not a number is not skipped: \<^verbatim>\<open>__init__\<close> raises
  \<^verbatim>\<open>ValueError\<close>.
\<close>

theorem own_log_run:
  "logfile (snd (add_reading ''2019-01-01 10:00:00'' ''stationA/temp'' ''21.5'' (fresh False)))
     = Some ''date,topic,data\<newline>2019-01-01 10:00:00,stationA/temp,21.5\<newline>''
   \<and> window_of ''stationA/temp''
       (init sample_float
          (Some ''date,topic,data\<newline>2019-01-01 10:00:00,stationA/temp,21.5\<newline>'')
          ''P1.csv'' station_topics False True (max_plot_arg None))
     = Inr (Some ([], []))
   \<and> init sample_float
        (Some ''date,stationA/temp,x\<newline>2019-01-01 10:00:00,abc,0\<newline>2019-01-01 10:00:01,21.5,0\<newline>'')
        ''P1.csv'' station_topics False True (max_plot_arg None)
     = Inl ValueError"
proof -
  have p: "plot (fresh False) \<longrightarrow> ''21.5'' = ''nan''" by (simp add: fresh_def)
  have w: "logfile (snd (add_reading ''2019-01-01 10:00:00'' ''stationA/temp'' ''21.5'' (fresh False)))
     = Some ''date,topic,data\<newline>2019-01-01 10:00:00,stationA/temp,21.5\<newline>''"
    by (simp add: add_reading_persists [OF fresh_free fresh_reading p])
      (simp add: fresh_def header_def newline_def data_line_def)
  have r: "window_of ''stationA/temp''
       (init sample_float
          (Some ''date,topic,data\<newline>2019-01-01 10:00:00,stationA/temp,21.5\<newline>'')
          ''P1.csv'' station_topics False True (max_plot_arg None))
     = Inr (Some ([], []))"
    by (simp add: init_def window_of_def station_topics_def max_plot_arg_def)
  have v: "init sample_float
        (Some ''date,stationA/temp,x\<newline>2019-01-01 10:00:00,abc,0\<newline>2019-01-01 10:00:01,21.5,0\<newline>'')
        ''P1.csv'' station_topics False True (max_plot_arg None)
     = Inl ValueError"
    by (simp add: init_def station_topics_def sample_float_def strip_def is_space_def
        unsigned_float_def digit_of_def max_plot_arg_def)
  from w r v show ?thesis by (simp only: simp_thms)
qed

subsection \<open>The bound of the windows\<close>









end
